theory Spec2Isabelle
  imports Main "HOL-Library.Multiset"
begin

section \<open>JavaScript values of the request context\<close>

text \<open>
  The server reads the Koa context, its request and its response through dynamic
  property access (\<^verbatim>\<open>source[paramType]\<close>, \<^verbatim>\<open>param[name]\<close>), so they are
  modelled as JavaScript values. An object is the list of the properties visible on it
  (inherited ones included). A function value is given by its graph on one string
  argument: a finite table and the result everywhere else; a promise stands for the
  value it resolves to.
\<close>

datatype jsval =
    JUndefined
  | JNull
  | JBool bool
  | JNum int
  | JStr string
  | JObj "(string \<times> jsval) list"
  | JFun "(string \<times> jsval) list" jsval

text \<open>
  \<open>TypeError\<close>: property access on \<^verbatim>\<open>undefined\<close>/\<^verbatim>\<open>null\<close>, or a call of
  something that is not a function. \<open>Unmodelled\<close>: property access on a primitive or a
  function, whose built-in prototype properties are not part of this model.
  \<open>NoMatchingBindings\<close>, \<open>AmbiguousMatch\<close>: the container's lookup failures.
\<close>

datatype error = TypeError | Unmodelled | NoMatchingBindings | AmbiguousMatch

fun truthy :: "jsval \<Rightarrow> bool" where
  "truthy JUndefined = False"
| "truthy JNull = False"
| "truthy (JBool b) = b"
| "truthy (JNum n) = (n \<noteq> 0)"
| "truthy (JStr s) = (s \<noteq> [])"
| "truthy (JObj ps) = True"
| "truthy (JFun tbl d) = True"

fun js_get :: "jsval \<Rightarrow> string \<Rightarrow> error + jsval" where
  "js_get JUndefined k = Inl TypeError"
| "js_get JNull k = Inl TypeError"
| "js_get (JObj ps) k = Inr (case map_of ps k of None \<Rightarrow> JUndefined | Some v \<Rightarrow> v)"
| "js_get v k = Inl Unmodelled"

text \<open>\<^verbatim>\<open>obj[k] = v\<close> on the property list: an existing property keeps its place.\<close>

fun js_upd :: "string \<Rightarrow> 'v \<Rightarrow> (string \<times> 'v) list \<Rightarrow> (string \<times> 'v) list" where
  "js_upd k v [] = [(k, v)]"
| "js_upd k v (p # ps) = (if fst p = k then (k, v) # ps else p # js_upd k v ps)"

fun js_set :: "jsval \<Rightarrow> string \<Rightarrow> jsval \<Rightarrow> error + jsval" where
  "js_set JUndefined k v = Inl TypeError"
| "js_set JNull k v = Inl TypeError"
| "js_set (JObj ps) k v = Inr (JObj (js_upd k v ps))"
| "js_set w k v = Inl Unmodelled"

fun js_apply :: "jsval \<Rightarrow> string \<Rightarrow> error + jsval" where
  "js_apply (JFun tbl d) a = Inr (case map_of tbl a of None \<Rightarrow> d | Some v \<Rightarrow> v)"
| "js_apply v a = Inl TypeError"

definition js_call_method :: "jsval \<Rightarrow> string \<Rightarrow> string \<Rightarrow> error + jsval" where
  "js_call_method obj m a =
     (case js_get obj m of Inl e \<Rightarrow> Inl e | Inr f \<Rightarrow> js_apply f a)"

text \<open>The key of \<^verbatim>\<open>source[paramType]\<close>: \<^verbatim>\<open>null\<close> is converted to the string "null".\<close>

fun js_key :: "string option \<Rightarrow> string" where
  "js_key None = ''null''"
| "js_key (Some k) = k"

text \<open>
  \<^verbatim>\<open>args[i] = v\<close> on a JavaScript array: beyond the end the array grows, and the
  positions skipped read as \<^verbatim>\<open>undefined\<close> when the array is spread into a call.
\<close>

definition array_assign :: "jsval list \<Rightarrow> nat \<Rightarrow> jsval \<Rightarrow> jsval list" where
  "array_assign args i v =
     (if i < length args then args[i := v]
      else args @ replicate (i - length args) JUndefined @ [v])"

section \<open>constants.ts and interfaces.ts\<close>

text \<open>
  The enum \<^verbatim>\<open>PARAMETER_TYPE\<close>. At run time its members are numbers, and
  \<open>OTHER n\<close> stands for a number outside the enum, which the \<^verbatim>\<open>default\<close>
  branch of \<^verbatim>\<open>extractParameters\<close> receives.
\<close>

datatype PARAMETER_TYPE =
  REQUEST | RESPONSE | PARAMS | QUERY | BODY | HEADERS | COOKIES | NEXT | CTX | OTHER nat

definition DEFAULT_ROUTING_ROOT_PATH :: string where
  "DEFAULT_ROUTING_ROOT_PATH = ''/''"

text \<open>
  A middleware item is an inline handler (a function, known by reference) or a service
  identifier of the container. A class reference (\<^verbatim>\<open>target\<close>) is known by the
  class name, which is all the server reads of it (\<^verbatim>\<open>target.name\<close>).
\<close>

datatype Middleware = InlineHandler nat | ServiceIdentifier string

record ControllerMetadata =
  path :: string
  middleware :: "Middleware list"
  target :: string

record ControllerMethodMetadata = ControllerMetadata +
  "method" :: string
  key :: string

record ParameterMetadata =
  parameterName :: string
  index :: nat
  ptype :: PARAMETER_TYPE

type_synonym ControllerParameterMetadata = "(string \<times> ParameterMetadata list) list"

record AuthorizeAllMetadata =
  requiredRoles :: "string list"
  authorize_target :: string

record AuthorizeMetadata = AuthorizeAllMetadata +
  authorize_key :: string

record RoutingConfig =
  rootPath :: string

text \<open>
  A controller class with the metadata that \<^verbatim>\<open>Reflect\<close> keeps for it, one
  optional entry per metadata key, and the class's methods: a method maps the argument
  list of a call to the value it returns (or resolves to), or throws.
\<close>

record Controller =
  class_name :: string
  controller_md :: "ControllerMetadata option"
  controllerMethod_md :: "ControllerMethodMetadata list option"
  controllerParameter_md :: "ControllerParameterMetadata option"
  authorizeAll_md :: "AuthorizeAllMetadata option"
  authorize_md :: "(string \<times> AuthorizeMetadata) list option"
  methods :: "(string \<times> (jsval list \<Rightarrow> error + jsval)) list"

section \<open>server.ts: argument extraction\<close>

definition checkQueryParam :: "string option \<Rightarrow> jsval \<Rightarrow> string \<Rightarrow> error + jsval" where
  "checkQueryParam paramType param name =
     (if paramType = Some ''query'' then Inr JUndefined
      else if paramType = Some ''cookies'' then js_call_method param ''get'' name
      else Inr param)"

definition getParam :: "jsval \<Rightarrow> string option \<Rightarrow> string \<Rightarrow> error + jsval" where
  "getParam source paramType name =
     (case js_get source (js_key paramType) of
        Inl e \<Rightarrow> Inl e
      | Inr t \<Rightarrow>
          (let param = (if truthy t then t else source) in
           case js_get param name of
             Inl e \<Rightarrow> Inl e
           | Inr v \<Rightarrow> if truthy v then Inr v else checkQueryParam paramType param name))"

text \<open>
  \<^verbatim>\<open>getParam(ctx.request, ...)\<close> and \<^verbatim>\<open>getParam(ctx.response, ...)\<close>: the
  property of the context is read first, then \<open>getParam\<close> runs on it.
\<close>

definition getParam_of :: "jsval \<Rightarrow> string \<Rightarrow> string option \<Rightarrow> string \<Rightarrow> error + jsval" where
  "getParam_of ctx field paramType name =
     (case js_get ctx field of Inl e \<Rightarrow> Inl e | Inr source \<Rightarrow> getParam source paramType name)"

text \<open>The right-hand side that the \<^verbatim>\<open>switch\<close> of \<open>extractParameters\<close> assigns.\<close>

fun switch_value :: "jsval \<Rightarrow> jsval \<Rightarrow> PARAMETER_TYPE \<Rightarrow> string \<Rightarrow> error + jsval" where
  "switch_value ctx nxt RESPONSE name = getParam_of ctx ''response'' None name"
| "switch_value ctx nxt REQUEST name = getParam_of ctx ''request'' None name"
| "switch_value ctx nxt NEXT name = Inr nxt"
| "switch_value ctx nxt CTX name = getParam ctx None name"
| "switch_value ctx nxt PARAMS name = getParam ctx (Some ''params'') name"
| "switch_value ctx nxt QUERY name = getParam ctx (Some ''query'') name"
| "switch_value ctx nxt BODY name = getParam_of ctx ''request'' (Some ''body'') name"
| "switch_value ctx nxt HEADERS name = getParam_of ctx ''request'' (Some ''headers'') name"
| "switch_value ctx nxt COOKIES name = getParam ctx (Some ''cookies'') name"
| "switch_value ctx nxt (OTHER n) name = Inr ctx"

text \<open>The \<^verbatim>\<open>for (let item of params)\<close> loop, on the array \<open>args\<close> built so far.\<close>

fun extract_loop ::
  "jsval \<Rightarrow> jsval \<Rightarrow> ParameterMetadata list \<Rightarrow> jsval list \<Rightarrow> error + jsval list" where
  "extract_loop ctx nxt [] args = Inr args"
| "extract_loop ctx nxt (item # items) args =
     (case switch_value ctx nxt (ptype item) (parameterName item) of
        Inl e \<Rightarrow> Inl e
      | Inr v \<Rightarrow> extract_loop ctx nxt items (array_assign args (index item) v))"

definition extractParameters ::
  "jsval \<Rightarrow> jsval \<Rightarrow> ParameterMetadata list \<Rightarrow> error + jsval list" where
  "extractParameters ctx nxt params =
     (if params = [] then Inr [ctx, nxt]
      else case extract_loop ctx nxt params [] of
             Inl e \<Rightarrow> Inl e
           | Inr args \<Rightarrow> Inr (args @ [ctx, nxt]))"

text \<open>
  The other version of the server kept in the repository (the second
  \<^verbatim>\<open>server.ts\<close>, without the principal) answers a QUERY parameter named "default"
  before any lookup.
\<close>

definition getParam_v2 :: "jsval \<Rightarrow> string option \<Rightarrow> string \<Rightarrow> error + jsval" where
  "getParam_v2 source paramType name =
     (case js_get source (js_key paramType) of
        Inl e \<Rightarrow> Inl e
      | Inr t \<Rightarrow>
          (let param = (if truthy t then t else source) in
           if paramType = Some ''query'' \<and> name = ''default'' then Inr param
           else case js_get param name of
             Inl e \<Rightarrow> Inl e
           | Inr v \<Rightarrow> if truthy v then Inr v else checkQueryParam paramType param name))"

section \<open>decorators.ts\<close>

text \<open>
  Each decorator is the change it makes to the metadata of the class it is applied to.
  \<^verbatim>\<open>getMetadataList\<close> returns the stored list, or stores and returns a new empty one.
\<close>

definition controller :: "string \<Rightarrow> Middleware list \<Rightarrow> Controller \<Rightarrow> Controller" where
  "controller p mws cls =
     cls\<lparr>controller_md := Some \<lparr>path = p, middleware = mws, target = class_name cls\<rparr>\<rparr>"

definition httpMethod ::
  "string \<Rightarrow> string \<Rightarrow> Middleware list \<Rightarrow> string \<Rightarrow> Controller \<Rightarrow> Controller" where
  "httpMethod m p mws k cls =
     (let metadata = \<lparr>path = p, middleware = mws, target = class_name cls, method = m, key = k\<rparr>;
          metadataList = (case controllerMethod_md cls of None \<Rightarrow> [] | Some l \<Rightarrow> l)
      in cls\<lparr>controllerMethod_md := Some (metadataList @ [metadata])\<rparr>)"

definition httpGet :: "string \<Rightarrow> Middleware list \<Rightarrow> string \<Rightarrow> Controller \<Rightarrow> Controller" where
  "httpGet p mws k cls = httpMethod ''get'' p mws k cls"

definition authorizeAll :: "string list \<Rightarrow> Controller \<Rightarrow> Controller" where
  "authorizeAll roles cls =
     cls\<lparr>authorizeAll_md := Some \<lparr>requiredRoles = roles, authorize_target = class_name cls\<rparr>\<rparr>"

definition authorize :: "string list \<Rightarrow> string \<Rightarrow> Controller \<Rightarrow> Controller" where
  "authorize roles k cls =
     (let metadata = \<lparr>requiredRoles = roles, authorize_target = class_name cls, authorize_key = k\<rparr>;
          metadataList = (case authorize_md cls of None \<Rightarrow> [] | Some l \<Rightarrow> l)
      in cls\<lparr>authorize_md := Some (js_upd k metadata metadataList)\<rparr>)"

definition params :: "PARAMETER_TYPE \<Rightarrow> string \<Rightarrow> string \<Rightarrow> nat \<Rightarrow> Controller \<Rightarrow> Controller" where
  "params t pname methodName i cls =
     (let parameterMetadata = \<lparr>parameterName = pname, index = i, ptype = t\<rparr>;
          metadataList = (case controllerParameter_md cls of None \<Rightarrow> [] | Some l \<Rightarrow> l);
          parameterMetadataList = (case map_of metadataList methodName of None \<Rightarrow> [] | Some l \<Rightarrow> l)
      in cls\<lparr>controllerParameter_md :=
               Some (js_upd methodName (parameterMetadata # parameterMetadataList) metadataList)\<rparr>)"

text \<open>\<^verbatim>\<open>paramDecoratorFactory\<close>: a missing or empty name becomes "default".\<close>

definition paramDecoratorFactory ::
  "PARAMETER_TYPE \<Rightarrow> string option \<Rightarrow> string \<Rightarrow> nat \<Rightarrow> Controller \<Rightarrow> Controller" where
  "paramDecoratorFactory t name methodName i cls =
     params t (case name of None \<Rightarrow> ''default'' | Some n \<Rightarrow> if n = [] then ''default'' else n)
       methodName i cls"

section \<open>The container, the router and the application\<close>

text \<open>
  The collaborators of the server, by what the server asks of them. The container
  holds the controllers bound under \<^verbatim>\<open>TYPE.Controller\<close> (each with the name it was
  bound under, if any), the bindings that middleware items resolve to, and the binding of
  \<^verbatim>\<open>TYPE.AuthProvider\<close>. An identifier has at most one binding, reading a bound
  identifier gives its instance, and \<open>getAll\<close> gives every bound controller. An auth
  provider is its \<^verbatim>\<open>getPrincipal\<close>, from the context to the principal.
\<close>

datatype MiddlewareInstance = BaseMiddleware nat | RequestHandler nat

type_synonym AuthProvider = "jsval \<Rightarrow> jsval"

record Container =
  controllers :: "(string option \<times> Controller) list"
  bindings :: "Middleware \<Rightarrow> MiddlewareInstance option"
  authProviderBinding :: "AuthProvider option"

definition getAll :: "Container \<Rightarrow> Controller list" where
  "getAll c = map snd (controllers c)"

definition getNamed :: "Container \<Rightarrow> string \<Rightarrow> error + Controller" where
  "getNamed c n =
     (case filter (\<lambda>b. fst b = Some n) (controllers c) of
        [] \<Rightarrow> Inl NoMatchingBindings
      | [b] \<Rightarrow> Inr (snd b)
      | _ \<Rightarrow> Inl AmbiguousMatch)"

definition isBound :: "Container \<Rightarrow> Middleware \<Rightarrow> bool" where
  "isBound c item = (bindings c item \<noteq> None)"

definition container_get :: "Container \<Rightarrow> Middleware \<Rightarrow> error + MiddlewareInstance" where
  "container_get c item =
     (case bindings c item of None \<Rightarrow> Inl NoMatchingBindings | Some inst \<Rightarrow> Inr inst)"

text \<open>
  The handlers that reach the router: the adapter that forwards to the
  \<^verbatim>\<open>handler\<close> of a \<open>BaseMiddleware\<close> instance, a resolved instance used
  directly, a middleware item taken as it is, and the handler that
  \<^verbatim>\<open>handlerFactory\<close> generates for a controller name, a method key and a parameter list.
\<close>

datatype KoaRequestHandler =
    Forwarding nat
  | Instance nat
  | AsIs Middleware
  | InvocationHandler string string "ParameterMetadata list"

text \<open>
  The router keeps the routes registered on it, each under the path and with the handlers
  it was called with. The verb is the name of the router method that the server calls
  (\<^verbatim>\<open>this._router[metadata.method]\<close>), which \<open>httpMethod\<close> expects to be a routing
  method of the router. The application keeps its middleware in the order of the
  \<^verbatim>\<open>use\<close> calls; a configuration function receives the application and may change it.
\<close>

record Route =
  verb :: string
  route_path :: string
  chain :: "KoaRequestHandler list"

record Router =
  opts_prefix :: "string option"
  stack :: "Route list"

datatype AppMiddleware = PrincipalMiddleware | RouterRoutes | AppHandler nat

record Koa =
  middleware_stack :: "AppMiddleware list"

type_synonym ConfigFunction = "Koa \<Rightarrow> Koa"

text \<open>What an observer of \<^verbatim>\<open>build()\<close> sees, in order.\<close>

datatype event =
    AppUse AppMiddleware
  | ConfigFnCalled
  | ErrorConfigFnCalled
  | RouterPrefix string
  | RouterRegister Route

section \<open>server.ts: the server\<close>

text \<open>The fields of the class, and \<open>trace\<close>, the events observed so far.\<close>

record InversifyKoaServer =
  router :: Router
  container :: Container
  app :: Koa
  configFn :: "ConfigFunction option"
  errorConfigFn :: "ConfigFunction option"
  routingConfig :: RoutingConfig
  AuthProvider :: "AuthProvider option"
  trace :: "event list"

definition new_Router :: Router where
  "new_Router = \<lparr>opts_prefix = None, stack = []\<rparr>"

definition new_Koa :: Koa where
  "new_Koa = \<lparr>middleware_stack = []\<rparr>"

definition new_InversifyKoaServer ::
  "Container \<Rightarrow> Router option \<Rightarrow> RoutingConfig option \<Rightarrow> Koa option \<Rightarrow> AuthProvider option
   \<Rightarrow> InversifyKoaServer" where
  "new_InversifyKoaServer c customRouter rc customApp authProvider =
     \<lparr>router = (case customRouter of None \<Rightarrow> new_Router | Some r \<Rightarrow> r),
      container = (case authProvider of
                     None \<Rightarrow> c
                   | Some ap \<Rightarrow> c\<lparr>authProviderBinding := Some ap\<rparr>),
      app = (case customApp of None \<Rightarrow> new_Koa | Some a \<Rightarrow> a),
      configFn = None,
      errorConfigFn = None,
      routingConfig = (case rc of None \<Rightarrow> \<lparr>rootPath = DEFAULT_ROUTING_ROOT_PATH\<rparr> | Some r \<Rightarrow> r),
      AuthProvider = authProvider,
      trace = []\<rparr>"



subsection \<open>The calls the server makes on the application and the router\<close>

definition app_use :: "AppMiddleware \<Rightarrow> InversifyKoaServer \<Rightarrow> InversifyKoaServer" where
  "app_use mw s =
     s\<lparr>app := (app s)\<lparr>middleware_stack := middleware_stack (app s) @ [mw]\<rparr>,
       trace := trace s @ [AppUse mw]\<rparr>"

definition router_prefix :: "string \<Rightarrow> InversifyKoaServer \<Rightarrow> InversifyKoaServer" where
  "router_prefix p s =
     s\<lparr>router := (router s)\<lparr>opts_prefix := Some p\<rparr>,
       trace := trace s @ [RouterPrefix p]\<rparr>"

definition router_register :: "Route \<Rightarrow> InversifyKoaServer \<Rightarrow> InversifyKoaServer" where
  "router_register r s =
     s\<lparr>router := (router s)\<lparr>stack := stack (router s) @ [r]\<rparr>,
       trace := trace s @ [RouterRegister r]\<rparr>"

subsection \<open>resolveMiddleware\<close>

definition resolve_item :: "Container \<Rightarrow> Middleware \<Rightarrow> error + KoaRequestHandler" where
  "resolve_item c middlewareItem =
     (if isBound c middlewareItem then
        (case container_get c middlewareItem of
           Inl e \<Rightarrow> Inl e
         | Inr middlewareInstance \<Rightarrow>
             (case middlewareInstance of
                BaseMiddleware h \<Rightarrow> Inr (Forwarding h)
              | RequestHandler h \<Rightarrow> Inr (Instance h)))
      else Inr (AsIs middlewareItem))"

text \<open>\<^verbatim>\<open>Array.map\<close> with a callback that may throw: the first exception ends it.\<close>

fun map_throwing :: "('a \<Rightarrow> error + 'b) \<Rightarrow> 'a list \<Rightarrow> error + 'b list" where
  "map_throwing f [] = Inr []"
| "map_throwing f (x # xs) =
     (case f x of
        Inl e \<Rightarrow> Inl e
      | Inr y \<Rightarrow> (case map_throwing f xs of Inl e \<Rightarrow> Inl e | Inr ys \<Rightarrow> Inr (y # ys)))"

definition resolveMiddleware :: "Container \<Rightarrow> Middleware list \<Rightarrow> error + KoaRequestHandler list" where
  "resolveMiddleware c mws = map_throwing (resolve_item c) mws"

subsection \<open>registerControllers and build\<close>

definition handlerFactory :: "string \<Rightarrow> string \<Rightarrow> ParameterMetadata list \<Rightarrow> KoaRequestHandler" where
  "handlerFactory controllerName k parameterMetadata =
     InvocationHandler controllerName k parameterMetadata"

definition paramList_of :: "ControllerParameterMetadata option \<Rightarrow> string \<Rightarrow> ParameterMetadata list" where
  "paramList_of parameterMetadata k =
     (case parameterMetadata of
        None \<Rightarrow> []
      | Some tbl \<Rightarrow> (case map_of tbl k of None \<Rightarrow> [] | Some l \<Rightarrow> l))"

text \<open>The inner \<^verbatim>\<open>methodMetadata.forEach\<close>.\<close>

fun register_methods ::
  "ControllerMetadata \<Rightarrow> ControllerParameterMetadata option \<Rightarrow> KoaRequestHandler list
   \<Rightarrow> ControllerMethodMetadata list \<Rightarrow> InversifyKoaServer \<Rightarrow> error + InversifyKoaServer" where
  "register_methods cm pm controllerMiddleware [] s = Inr s"
| "register_methods cm pm controllerMiddleware (metadata # rest) s =
     (let paramList = paramList_of pm (key metadata);
          handler = handlerFactory (target cm) (key metadata) paramList
      in case resolveMiddleware (container s) (middleware metadata) of
           Inl e \<Rightarrow> Inl e
         | Inr routeMiddleware \<Rightarrow>
             register_methods cm pm controllerMiddleware rest
               (router_register
                  \<lparr>verb = method metadata,
                   route_path = path cm @ path metadata,
                   chain = controllerMiddleware @ routeMiddleware @ [handler]\<rparr> s))"

text \<open>The body of the outer \<^verbatim>\<open>controllers.forEach\<close>, for one controller.\<close>

definition register_controller :: "Controller \<Rightarrow> InversifyKoaServer \<Rightarrow> error + InversifyKoaServer" where
  "register_controller ctl s =
     (case (controller_md ctl, controllerMethod_md ctl) of
        (Some controllerMetadata, Some methodMetadata) \<Rightarrow>
          (case resolveMiddleware (container s) (middleware controllerMetadata) of
             Inl e \<Rightarrow> Inl e
           | Inr controllerMiddleware \<Rightarrow>
               register_methods controllerMetadata (controllerParameter_md ctl)
                 controllerMiddleware methodMetadata s)
      | _ \<Rightarrow> Inr s)"

fun register_all :: "Controller list \<Rightarrow> InversifyKoaServer \<Rightarrow> error + InversifyKoaServer" where
  "register_all [] s = Inr s"
| "register_all (ctl # ctls) s =
     (case register_controller ctl s of
        Inl e \<Rightarrow> Inl e
      | Inr s' \<Rightarrow> register_all ctls s')"

definition registerControllers :: "InversifyKoaServer \<Rightarrow> error + InversifyKoaServer" where
  "registerControllers s =
     (let s1 = (if rootPath (routingConfig s) \<noteq> DEFAULT_ROUTING_ROOT_PATH
                then router_prefix (rootPath (routingConfig s)) s else s)
      in case register_all (getAll (container s1)) s1 of
           Inl e \<Rightarrow> Inl e
         | Inr s2 \<Rightarrow> Inr (app_use RouterRoutes s2))"

definition call_configFn :: "InversifyKoaServer \<Rightarrow> InversifyKoaServer" where
  "call_configFn s =
     (case configFn s of
        None \<Rightarrow> s
      | Some fn \<Rightarrow> s\<lparr>app := fn (app s), trace := trace s @ [ConfigFnCalled]\<rparr>)"

definition call_errorConfigFn :: "InversifyKoaServer \<Rightarrow> InversifyKoaServer" where
  "call_errorConfigFn s =
     (case errorConfigFn s of
        None \<Rightarrow> s
      | Some fn \<Rightarrow> s\<lparr>app := fn (app s), trace := trace s @ [ErrorConfigFnCalled]\<rparr>)"

text \<open>\<open>build\<close> returns the application together with the server as it has become.\<close>

definition build :: "InversifyKoaServer \<Rightarrow> error + (Koa \<times> InversifyKoaServer)" where
  "build s =
     (let s1 = app_use PrincipalMiddleware s;
          s2 = call_configFn s1
      in case registerControllers s2 of
           Inl e \<Rightarrow> Inl e
         | Inr s3 \<Rightarrow> (let s4 = call_errorConfigFn s3 in Inr (app s4, s4)))"

subsection \<open>Request time: the principal and the invocation handler\<close>

text \<open>
  While a request is handled, the context changes and two kinds of call are observed:
  the auth provider's \<^verbatim>\<open>getPrincipal\<close> and a controller method with its arguments.
\<close>

datatype call = GetPrincipalCall | MethodCall string string "jsval list"

record request_state =
  rq_ctx :: jsval
  rq_calls :: "call list"

definition default_principal :: jsval where
  "default_principal =
     JObj [(''details'', JNull),
           (''isAuthenticated'', JFun [] (JBool False)),
           (''isInRole'', JFun [] (JBool False)),
           (''isResourceOwner'', JFun [] (JBool False))]"

definition getCurrentPrincipal ::
  "InversifyKoaServer \<Rightarrow> request_state \<Rightarrow> error + (jsval \<times> request_state)" where
  "getCurrentPrincipal s rq =
     (case AuthProvider s of
        Some cls \<Rightarrow>
          (case authProviderBinding (container s) of
             None \<Rightarrow> Inl NoMatchingBindings
           | Some authProvider \<Rightarrow>
               Inr (authProvider (rq_ctx rq), rq\<lparr>rq_calls := rq_calls rq @ [GetPrincipalCall]\<rparr>))
      | None \<Rightarrow> Inr (default_principal, rq))"

text \<open>\<^verbatim>\<open>ctx.state.principal = p\<close>.\<close>

definition set_state_principal :: "jsval \<Rightarrow> jsval \<Rightarrow> error + jsval" where
  "set_state_principal c p =
     (case js_get c ''state'' of
        Inl e \<Rightarrow> Inl e
      | Inr st \<Rightarrow> (case js_set st ''principal'' p of
                     Inl e \<Rightarrow> Inl e
                   | Inr st' \<Rightarrow> js_set c ''state'' st'))"

text \<open>
  The middleware that \<open>build\<close> installs first; \<open>nxt\<close> is the rest of the chain,
  from the state it is entered with to the state it leaves.
\<close>

definition principal_middleware ::
  "InversifyKoaServer \<Rightarrow> request_state \<Rightarrow> (request_state \<Rightarrow> error + request_state)
   \<Rightarrow> error + request_state" where
  "principal_middleware s rq nxt =
     (case getCurrentPrincipal s rq of
        Inl e \<Rightarrow> Inl e
      | Inr (p, rq1) \<Rightarrow>
          (case set_state_principal (rq_ctx rq1) p of
             Inl e \<Rightarrow> Inl e
           | Inr c \<Rightarrow> nxt (rq1\<lparr>rq_ctx := c\<rparr>)))"

text \<open>
  The function that \<open>handlerFactory\<close> returns, run on a request: \<open>nxt\<close> is the
  continuation as the value handed to the method. After \<^verbatim>\<open>await\<close> the result is
  never a promise, so only the second branch of the final test can apply.
\<close>

definition run_handler ::
  "Container \<Rightarrow> string \<Rightarrow> string \<Rightarrow> ParameterMetadata list \<Rightarrow> jsval \<Rightarrow> request_state
   \<Rightarrow> error + request_state" where
  "run_handler c controllerName k parameterMetadata nxt rq =
     (case extractParameters (rq_ctx rq) nxt parameterMetadata of
        Inl e \<Rightarrow> Inl e
      | Inr args \<Rightarrow>
          (case getNamed c controllerName of
             Inl e \<Rightarrow> Inl e
           | Inr ctl \<Rightarrow>
               (case map_of (methods ctl) k of
                  None \<Rightarrow> Inl TypeError
                | Some m \<Rightarrow>
                    (let rq1 = rq\<lparr>rq_calls := rq_calls rq @ [MethodCall controllerName k args]\<rparr> in
                     case m args of
                       Inl e \<Rightarrow> Inl e
                     | Inr result \<Rightarrow>
                         if truthy result then
                           (case js_get (rq_ctx rq1) ''headerSent'' of
                              Inl e \<Rightarrow> Inl e
                            | Inr sent \<Rightarrow>
                                if \<not> truthy sent
                                then (case js_set (rq_ctx rq1) ''body'' result of
                                        Inl e \<Rightarrow> Inl e
                                      | Inr c' \<Rightarrow> Inr (rq1\<lparr>rq_ctx := c'\<rparr>))
                                else Inr rq1)
                         else Inr rq1))))"

section \<open>Definitions for stating the properties\<close>



definition add_routes :: "Route list \<Rightarrow> InversifyKoaServer \<Rightarrow> InversifyKoaServer" where
  "add_routes rs s =
     s\<lparr>router := (router s)\<lparr>stack := stack (router s) @ rs\<rparr>,
       trace := trace s @ map RouterRegister rs\<rparr>"

text \<open>The array after assigning \<open>f p\<close> at \<open>index p\<close> for each \<open>p\<close> of a list in turn.\<close>

definition assign_all ::
  "(ParameterMetadata \<Rightarrow> jsval) \<Rightarrow> ParameterMetadata list \<Rightarrow> jsval list \<Rightarrow> jsval list" where
  "assign_all f ps a = fold (\<lambda>p a. array_assign a (index p) (f p)) ps a"


text \<open>The server after the optional \<^verbatim>\<open>router.prefix\<close> call that opens \<open>registerControllers\<close>.\<close>

definition prefixed :: "InversifyKoaServer \<Rightarrow> InversifyKoaServer" where
  "prefixed s = (if rootPath (routingConfig s) \<noteq> DEFAULT_ROUTING_ROOT_PATH
                then router_prefix (rootPath (routingConfig s)) s else s)"

section \<open>Example inputs\<close>

definition example_next :: jsval where
  "example_next = JFun [] JUndefined"

definition example_cookies :: jsval where
  "example_cookies = JObj [(''get'', JFun [(''cookie'', JStr ''hey''), (''get'', JStr ''hello'')] JUndefined)]"

definition example_ctx :: jsval where
  "example_ctx =
     JObj [(''params'', JObj [(''id'', JStr ''42'')]),
           (''query'', JObj [(''count'', JStr ''5'')]),
           (''cookies'', example_cookies),
           (''request'', JObj [(''body'', JObj [(''title'', JStr ''t'')]),
                               (''headers'', JObj [(''accept'', JStr ''json'')])]),
           (''response'', JObj [(''status'', JNum 404)]),
           (''state'', JObj [])]"

definition example_class :: Controller where
  "example_class =
     \<lparr>class_name = ''TestController'', controller_md = None, controllerMethod_md = None,
      controllerParameter_md = None, authorizeAll_md = None, authorize_md = None,
      methods = [(''getTest'', \<lambda>args. Inr (case args of [] \<Rightarrow> JUndefined | a # _ \<Rightarrow> a))]\<rparr>"

definition ProtectedController :: Controller where
  "ProtectedController =
     authorizeAll [] (controller ''/'' []
       (authorize [''role a''] ''getTest'' (httpGet '':id'' [] ''getTest''
          (paramDecoratorFactory PARAMS (Some ''id'') ''getTest'' 0 example_class))))"

definition example_container :: "Controller \<Rightarrow> Container" where
  "example_container ctl =
     \<lparr>controllers = [(Some ''TestController'', ctl)], bindings = (\<lambda>item. None),
      authProviderBinding = None\<rparr>"

definition protected_server :: InversifyKoaServer where
  "protected_server = new_InversifyKoaServer (example_container ProtectedController) None None None None"








section \<open>Properties\<close>

lemmas decorator_defs = authorizeAll_def controller_def authorize_def httpGet_def httpMethod_def
  paramDecoratorFactory_def params_def

lemmas build_defs = build_def registerControllers_def register_controller_def
  resolveMiddleware_def resolve_item_def isBound_def container_get_def handlerFactory_def
  paramList_of_def router_register_def router_prefix_def app_use_def call_configFn_def
  call_errorConfigFn_def new_InversifyKoaServer_def new_Router_def new_Koa_def getAll_def
  DEFAULT_ROUTING_ROOT_PATH_def

lemmas request_defs = principal_middleware_def getCurrentPrincipal_def set_state_principal_def
  run_handler_def extractParameters_def getParam_def getParam_of_def checkQueryParam_def
  js_call_method_def getNamed_def array_assign_def default_principal_def





lemma add_routes_Nil [simp]: "add_routes [] s = s"
  by (simp add: add_routes_def)

lemma add_routes_fields [simp]:
  "container (add_routes rs s) = container s"
  "app (add_routes rs s) = app s"
  "configFn (add_routes rs s) = configFn s"
  "errorConfigFn (add_routes rs s) = errorConfigFn s"
  "routingConfig (add_routes rs s) = routingConfig s"
  "AuthProvider (add_routes rs s) = AuthProvider s"
  "trace (add_routes rs s) = trace s @ map RouterRegister rs"
  "stack (router (add_routes rs s)) = stack (router s) @ rs"
  "opts_prefix (router (add_routes rs s)) = opts_prefix (router s)"
  by (simp_all add: add_routes_def)








lemma prefixed_fields [simp]:
  "container (prefixed s) = container s"
  "app (prefixed s) = app s"
  "configFn (prefixed s) = configFn s"
  "errorConfigFn (prefixed s) = errorConfigFn s"
  "routingConfig (prefixed s) = routingConfig s"
  "AuthProvider (prefixed s) = AuthProvider s"
  "stack (router (prefixed s)) = stack (router s)"
  "trace (prefixed s) = trace s @
     (if rootPath (routingConfig s) \<noteq> DEFAULT_ROUTING_ROOT_PATH
      then [RouterPrefix (rootPath (routingConfig s))] else [])"
  by (simp_all add: prefixed_def router_prefix_def)

lemma app_use_fields [simp]:
  "container (app_use mw s) = container s"
  "router (app_use mw s) = router s"
  "configFn (app_use mw s) = configFn s"
  "errorConfigFn (app_use mw s) = errorConfigFn s"
  "routingConfig (app_use mw s) = routingConfig s"
  "AuthProvider (app_use mw s) = AuthProvider s"
  "middleware_stack (app (app_use mw s)) = middleware_stack (app s) @ [mw]"
  "trace (app_use mw s) = trace s @ [AppUse mw]"
  by (simp_all add: app_use_def)

lemma call_configFn_fields [simp]:
  "container (call_configFn s) = container s"
  "router (call_configFn s) = router s"
  "configFn (call_configFn s) = configFn s"
  "errorConfigFn (call_configFn s) = errorConfigFn s"
  "routingConfig (call_configFn s) = routingConfig s"
  "AuthProvider (call_configFn s) = AuthProvider s"
  "app (call_configFn s) = (case configFn s of None \<Rightarrow> app s | Some fn \<Rightarrow> fn (app s))"
  "trace (call_configFn s) = trace s @ (if configFn s = None then [] else [ConfigFnCalled])"
  by (simp_all add: call_configFn_def split: option.splits)

lemma call_errorConfigFn_fields [simp]:
  "container (call_errorConfigFn s) = container s"
  "router (call_errorConfigFn s) = router s"
  "configFn (call_errorConfigFn s) = configFn s"
  "errorConfigFn (call_errorConfigFn s) = errorConfigFn s"
  "routingConfig (call_errorConfigFn s) = routingConfig s"
  "AuthProvider (call_errorConfigFn s) = AuthProvider s"
  "app (call_errorConfigFn s) = (case errorConfigFn s of None \<Rightarrow> app s | Some fn \<Rightarrow> fn (app s))"
  "trace (call_errorConfigFn s) = trace s @ (if errorConfigFn s = None then [] else [ErrorConfigFnCalled])"
  by (simp_all add: call_errorConfigFn_def split: option.splits)















lemma assign_all_simps [simp]:
  "assign_all f [] a = a"
  "assign_all f (p # ps) a = assign_all f ps (array_assign a (index p) (f p))"
  by (simp_all add: assign_all_def)






lemma map_of_js_upd_same: "map_of (js_upd k v ps) k = Some v"
  by (induction ps) auto

text \<open>
  Each \<open>params\<close> decorator puts its entry in front of the method's list: the list is
  in the reverse of the order in which the decorators were applied.
\<close>

lemma params_unshift:
  "paramList_of (controllerParameter_md (params t n k i cls)) k =
     \<lparr>parameterName = n, index = i, ptype = t\<rparr> # paramList_of (controllerParameter_md cls) k"
  by (simp add: params_def paramList_of_def Let_def map_of_js_upd_same split: option.splits)








text \<open>
  C7, at a request whose query is \<^verbatim>\<open>{count: "5"}\<close> and a QUERY parameter with the
  name "default": the argument extracted is \<^verbatim>\<open>undefined\<close>, not the query collection.
\<close>

theorem query_default_undefined:
  "extractParameters example_ctx example_next [\<lparr>parameterName = ''default'', index = 0, ptype = QUERY\<rparr>]
     = Inr [JUndefined, example_ctx, example_next]
   \<and> js_get example_ctx ''query'' = Inr (JObj [(''count'', JStr ''5'')])"
  by (simp add: example_ctx_def request_defs)

text \<open>The other version of \<open>getParam\<close> does return the whole query collection.\<close>

lemma getParam_v2_query_default:
  "js_get source ''query'' = Inr q \<Longrightarrow> truthy q \<Longrightarrow>
   getParam_v2 source (Some ''query'') ''default'' = Inr q"
  by (simp add: getParam_v2_def)

text \<open>
  C8 fails for a cookie whose name is a property of the cookie accessor object: with the
  cookies "cookie=hey" and "get=hello" set, a parameter bound to the cookie "get" receives
  the accessor function, found by plain property access, and not the value "hello" that
  \<^verbatim>\<open>get("get")\<close> returns.
\<close>

theorem cookie_named_get_counterexample:
  "switch_value example_ctx example_next COOKIES ''get''
     = Inr (JFun [(''cookie'', JStr ''hey''), (''get'', JStr ''hello'')] JUndefined)
   \<and> js_call_method example_cookies ''get'' ''get'' = Inr (JStr ''hello'')"
  by (simp add: example_ctx_def example_cookies_def request_defs)

text \<open>
  C8, amended. Extraction first reads the plain property \<open>n\<close> of the cookie accessor
  object and, when that is absent or falsy, calls the object's \<^verbatim>\<open>get(n)\<close>. So for
  every name that is not a truthy property of the accessor object, the value of the cookie
  is returned when the cookie is set and \<^verbatim>\<open>undefined\<close> when it is not, without throwing.
\<close>

theorem cookies_by_accessor:
  assumes "js_get c ''cookies'' = Inr (JObj props)"
    and "map_of props ''get'' = Some (JFun jar JUndefined)"
    and "js_get (JObj props) n = Inr v" and "\<not> truthy v"
  shows "switch_value c nxt COOKIES n = Inr (case map_of jar n of None \<Rightarrow> JUndefined | Some w \<Rightarrow> w)"
  using assms by (simp add: getParam_def checkQueryParam_def js_call_method_def)

theorem cookies_by_accessor_witness:
  "switch_value example_ctx example_next COOKIES ''cookie'' = Inr (JStr ''hey'')
   \<and> switch_value example_ctx example_next COOKIES ''session'' = Inr JUndefined"
proof -
  have c: "js_get example_ctx ''cookies''
     = Inr (JObj [(''get'', JFun [(''cookie'', JStr ''hey''), (''get'', JStr ''hello'')] JUndefined)])"
    by (simp add: example_ctx_def example_cookies_def)
  have g: "map_of [(''get'', JFun [(''cookie'', JStr ''hey''), (''get'', JStr ''hello'')] JUndefined)] ''get''
     = Some (JFun [(''cookie'', JStr ''hey''), (''get'', JStr ''hello'')] JUndefined)"
    by simp
  have m1: "js_get (JObj [(''get'', JFun [(''cookie'', JStr ''hey''), (''get'', JStr ''hello'')] JUndefined)]) ''cookie''
     = Inr JUndefined" by simp
  have m2: "js_get (JObj [(''get'', JFun [(''cookie'', JStr ''hey''), (''get'', JStr ''hello'')] JUndefined)]) ''session''
     = Inr JUndefined" by simp
  have f: "\<not> truthy JUndefined" by simp
  show ?thesis
    using cookies_by_accessor [OF c g m1 f, of example_next]
          cookies_by_accessor [OF c g m2 f, of example_next]
    by simp
qed

lemma ProtectedController_md:
  "authorizeAll_md ProtectedController = Some \<lparr>requiredRoles = [], authorize_target = ''TestController''\<rparr>"
  "authorize_md ProtectedController = Some [(''getTest'', \<lparr>requiredRoles = [''role a''], authorize_target = ''TestController'', authorize_key = ''getTest''\<rparr>)]"
  by (simp_all add: ProtectedController_def decorator_defs example_class_def)

lemma register_controller_ignores_authorization:
  "register_controller (ctl\<lparr>authorizeAll_md := x, authorize_md := y\<rparr>) s = register_controller ctl s"
  by (simp add: register_controller_def split: option.splits sum.splits)

text \<open>
  C1, at a controller decorated with \<open>authorizeAll\<close> whose method is decorated with
  \<open>authorize\<close>, on a server without auth provider. \<open>build\<close> registers the route
  with the invocation handler alone, and a request by the default (unauthenticated)
  principal runs the controller method once and gets its result as the body: no status is
  set, where the specification asks for 401.
\<close>

theorem authorize_not_enforced:
  "map_sum id (\<lambda>r. stack (router (snd r))) (build protected_server)
     = Inr [\<lparr>verb = ''get'', route_path = ''/:id'',
             chain = [InvocationHandler ''TestController'' ''getTest''
                        [\<lparr>parameterName = ''id'', index = 0, ptype = PARAMS\<rparr>]]\<rparr>]
   \<and> map_sum id (\<lambda>rq. (length (rq_calls rq), js_get (rq_ctx rq) ''body'', js_get (rq_ctx rq) ''status''))
       (principal_middleware protected_server \<lparr>rq_ctx = example_ctx, rq_calls = []\<rparr>
          (run_handler (container protected_server) ''TestController'' ''getTest''
             [\<lparr>parameterName = ''id'', index = 0, ptype = PARAMS\<rparr>] example_next))
     = Inr (1, Inr (JStr ''42''), Inr JUndefined)"
  by (simp add: protected_server_def example_container_def ProtectedController_def decorator_defs
        example_class_def build_defs request_defs example_ctx_def Let_def)






end
